theory Spec2Isabelle
  imports Main
begin

section \<open>Protocol constants\<close>

text \<open>
  The numeric constants below are used by the flow controllers and the settings store
  but are declared in a file of the repository that is not part of the sources at hand.
\<close>

definition maxInitialWindowSize :: int where
  \<comment> \<open>Modelled from the spec: the constant \<open>maxInitialWindowSize\<close> is declared outside
     the given sources; the settings table bounds INITIAL_WINDOW_SIZE by \<open>2^31 - 1\<close>.\<close>
  "maxInitialWindowSize = 2147483647"

definition defaultInitialWindowSize :: int where
  \<comment> \<open>Modelled from the spec: the constant \<open>defaultInitialWindowSize\<close> is declared outside
     the given sources; the spec gives the initial window as 65535.\<close>
  "defaultInitialWindowSize = 65535"

definition maxFrameSizeLowerBound :: int where
  \<comment> \<open>Modelled from the spec: declared outside the given sources; the valid range of
     MAX_FRAME_SIZE is [16384, 16777215].\<close>
  "maxFrameSizeLowerBound = 16384"

definition maxFrameSizeUpperBound :: int where
  \<comment> \<open>Modelled from the spec: declared outside the given sources; see above.\<close>
  "maxFrameSizeUpperBound = 16777215"

section \<open>Errors\<close>

datatype ErrCode =
  ErrCodeNo | ErrCodeProtocol | ErrCodeInternal | ErrCodeFlowControl
  | ErrCodeSettingsTimeout | ErrCodeStreamClosed | ErrCodeFrameSize
  | ErrCodeRefusedStream | ErrCodeCancel | ErrCodeCompression | ErrCodeConnect
  | ErrCodeEnhanceYourCalm | ErrCodeInadequateSecurity | ErrCodeHTTP11Required

section \<open>Stream states, frame types and directions\<close>

datatype StreamState =
  StateIdle | StateReservedLocal | StateReservedRemote | StateOpen
  | StateHalfClosedLocal | StateHalfClosedRemote | StateClosed

text \<open>
  \<open>FrameType\<close> is a byte in the source; the ten named constants are the ones the
  code switches on, and \<open>FrameUnknown b\<close> stands for a type byte \<open>b\<close> that is none
  of them (an \<open>UnknownFrame\<close>).
\<close>

datatype FrameType =
  FrameData | FrameHeaders | FramePriority | FrameRSTStream | FrameSettings
  | FramePushPromise | FramePing | FrameGoAway | FrameWindowUpdate
  | FrameContinuation | FrameUnknown nat

datatype dir = recv | send

text \<open>
  \<open>SettingID\<close> is a 16-bit number in the source; \<open>SettingUnknown n\<close> stands for an
  identifier that is none of the six named ones.
\<close>

datatype SettingID =
  SettingHeaderTableSize | SettingEnablePush | SettingMaxConcurrentStreams
  | SettingInitialWindowSize | SettingMaxFrameSize | SettingMaxHeaderListSize
  | SettingUnknown nat

text \<open>
  The text of an error: the source formats \<open>"stream %d already closed"\<close> with the
  stream id, \<open>"bad stream state %s"\<close> with the state's name and
  \<open>"invalid %s specified; %v"\<close> with a setting and its value.
\<close>

datatype errmsg =
  StreamAlreadyClosed nat
  | BadStreamState StreamState
  | WindowSizeLimitExceeded
  | ReturnTooManyBytes
  | WindowSizeOverflow
  | InvalidSetting SettingID nat

text \<open>
  The error values of the package: the sentinels \<open>ignoreFrame\<close>, \<open>errStreamClosed\<close> and
  \<open>ErrClosed\<close>, a plain \<open>error\<close> built by \<open>errors.New\<close> or \<open>fmt.Errorf\<close>, the structs
  \<open>StreamError\<close> and \<open>ConnError\<close>, and \<open>MalformedError\<close> (a string). \<open>RuntimePanic\<close> is a
  run-time panic of Go (an index out of range).
\<close>

datatype error =
  ignoreFrame
  | errStreamClosed
  | ErrClosed
  | PlainError errmsg
  | StreamError errmsg ErrCode nat
  | ConnError errmsg ErrCode
  | MalformedError string
  | RuntimePanic

subsection \<open>\<open>dir.transition\<close>\<close>

text \<open>
  The first half of \<open>dir.transition\<close>: the two nested switches over the starting
  state and the frame type. \<open>None\<close> is the bare \<open>return\<close> of a \<open>default\<close> branch,
  which leaves \<open>ok\<close> false; \<open>Some to\<close> is the state reached when control arrives at
  \<open>ok = true\<close>.
\<close>

definition transition_table :: "dir \<Rightarrow> StreamState \<Rightarrow> FrameType \<Rightarrow> StreamState option" where
  "transition_table d from frameType =
    (if d = recv then
      (case from of
        StateIdle \<Rightarrow>
          (case frameType of
            FrameHeaders \<Rightarrow> Some StateOpen
          | FramePriority \<Rightarrow> Some from
          | FramePushPromise \<Rightarrow> Some StateReservedRemote
          | _ \<Rightarrow> None)
      | StateReservedLocal \<Rightarrow>
          (case frameType of
            FramePriority \<Rightarrow> Some from
          | FrameWindowUpdate \<Rightarrow> Some from
          | FrameRSTStream \<Rightarrow> Some StateClosed
          | _ \<Rightarrow> None)
      | StateHalfClosedRemote \<Rightarrow>
          (case frameType of
            FramePriority \<Rightarrow> Some from
          | FrameWindowUpdate \<Rightarrow> Some from
          | FrameRSTStream \<Rightarrow> Some StateClosed
          | _ \<Rightarrow> None)
      | StateReservedRemote \<Rightarrow>
          (case frameType of
            FrameHeaders \<Rightarrow> Some StateHalfClosedLocal
          | FramePriority \<Rightarrow> Some from
          | FrameRSTStream \<Rightarrow> Some StateClosed
          | _ \<Rightarrow> None)
      | StateOpen \<Rightarrow>
          (case frameType of FrameRSTStream \<Rightarrow> Some StateClosed | _ \<Rightarrow> Some from)
      | StateHalfClosedLocal \<Rightarrow>
          (case frameType of FrameRSTStream \<Rightarrow> Some StateClosed | _ \<Rightarrow> Some from)
      | StateClosed \<Rightarrow>
          (case frameType of FramePriority \<Rightarrow> Some from | _ \<Rightarrow> None))
    else
      (case from of
        StateIdle \<Rightarrow>
          (case frameType of
            FrameHeaders \<Rightarrow> Some StateOpen
          | FramePriority \<Rightarrow> Some from
          | FramePushPromise \<Rightarrow> Some StateReservedLocal
          | _ \<Rightarrow> None)
      | StateReservedLocal \<Rightarrow>
          (case frameType of
            FrameHeaders \<Rightarrow> Some StateHalfClosedRemote
          | FramePriority \<Rightarrow> Some from
          | FrameRSTStream \<Rightarrow> Some StateClosed
          | _ \<Rightarrow> None)
      | StateReservedRemote \<Rightarrow>
          (case frameType of
            FramePriority \<Rightarrow> Some from
          | FrameWindowUpdate \<Rightarrow> Some from
          | FrameRSTStream \<Rightarrow> Some StateClosed
          | _ \<Rightarrow> None)
      | StateHalfClosedLocal \<Rightarrow>
          (case frameType of
            FramePriority \<Rightarrow> Some from
          | FrameWindowUpdate \<Rightarrow> Some from
          | FrameRSTStream \<Rightarrow> Some StateClosed
          | _ \<Rightarrow> None)
      | StateOpen \<Rightarrow>
          (case frameType of FrameRSTStream \<Rightarrow> Some StateClosed | _ \<Rightarrow> Some from)
      | StateHalfClosedRemote \<Rightarrow>
          (case frameType of
            FrameData \<Rightarrow> Some from
          | FrameHeaders \<Rightarrow> Some from
          | FramePriority \<Rightarrow> Some from
          | FrameRSTStream \<Rightarrow> Some StateClosed
          | _ \<Rightarrow> None)
      | StateClosed \<Rightarrow>
          (case frameType of FramePriority \<Rightarrow> Some from | _ \<Rightarrow> None)))"

text \<open>
  The whole of \<open>dir.transition\<close>: the result is the pair \<open>(to, ok)\<close>. On a bare
  \<open>return\<close> the named results still hold \<open>to = from\<close> and \<open>ok = false\<close>; otherwise
  the final switch on \<open>endStream\<close> runs (a Go \<open>switch\<close> does not fall through).
\<close>

definition dir_transition :: "dir \<Rightarrow> StreamState \<Rightarrow> FrameType \<Rightarrow> bool \<Rightarrow> StreamState \<times> bool" where
  "dir_transition d from frameType endStream =
    (case transition_table d from frameType of
      None \<Rightarrow> (from, False)
    | Some to \<Rightarrow>
        (if endStream then
          (case to of
            StateOpen \<Rightarrow> (if d = recv then StateHalfClosedRemote else StateHalfClosedLocal)
          | StateHalfClosedLocal \<Rightarrow> StateClosed
          | StateHalfClosedRemote \<Rightarrow> StateClosed
          | _ \<Rightarrow> to)
         else to, True))"

subsection \<open>\<open>stream.transition\<close>\<close>

text \<open>
  The fields of \<open>stream\<close> that \<open>stream.transition\<close> and \<open>compareAndSwapState\<close> read or
  write. \<open>closed\<close> is the time of the transition into Closed, in nanoseconds (the unit
  of Go's \<open>time.Duration\<close>). The remaining fields (weight, dependency tree, windows,
  pending data) are not touched by a transition.
\<close>

record stream =
  sid :: nat
  state :: StreamState
  resetSent :: bool
  resetReceived :: bool
  closed :: int

text \<open>
  \<open>compareAndSwapState\<close> for a swap that succeeds. Its effect on the stream itself is
  the new state and, on entering Closed from another state, the time stamp
  \<open>s.closed = time.Now()\<close>. The calls on the connection (stream counters, window
  set-up, \<open>cancelStream\<close>, \<open>removeStream\<close>) act on \<open>Conn\<close>, which is declared outside
  the given sources, and are not part of this model.
\<close>

definition compareAndSwapState :: "stream \<Rightarrow> StreamState \<Rightarrow> StreamState \<Rightarrow> int \<Rightarrow> stream" where
  "compareAndSwapState s from to now =
    (if to = StateClosed \<and> from \<noteq> StateClosed
     then s\<lparr>state := to, closed := now\<rparr>
     else s\<lparr>state := to\<rparr>)"

text \<open>\<open>time.Since(s.closed) <= time.Duration(5)*time.Second\<close> at the instant \<open>now\<close>.\<close>

definition withinGrace :: "stream \<Rightarrow> int \<Rightarrow> bool" where
  "withinGrace s now = (now - closed s \<le> 5 * 1000000000)"

text \<open>
  \<open>stream.transition\<close> for one task running alone: the state read at the top of the
  loop is the state the compare-and-swap finds, so the swap succeeds and the loop body
  runs once. \<open>now\<close> is the reading of the clock. The result is the stream after the
  call, the returned state and the returned error (\<open>None\<close> for \<open>nil\<close>).
\<close>

definition stream_transition ::
  "stream \<Rightarrow> dir \<Rightarrow> FrameType \<Rightarrow> bool \<Rightarrow> int \<Rightarrow> stream \<times> StreamState \<times> error option" where
  "stream_transition s d frameType endStream now =
    (let from = state s; (to, ok) = dir_transition d from frameType endStream in
     if \<not> ok then
       (if d = send then
          (if from = StateClosed then
             (if frameType = FrameRSTStream then (s, from, Some ignoreFrame)
              else (s, from, Some (PlainError (StreamAlreadyClosed (sid s)))))
           else (s, from, Some (PlainError (BadStreamState (state s)))))
        else if resetReceived s then
          (s, from, Some (StreamError (StreamAlreadyClosed (sid s)) ErrCodeStreamClosed (sid s)))
        else if resetSent s then
          (if withinGrace s now then (s, from, Some ignoreFrame)
           else (s, from, Some (StreamError (StreamAlreadyClosed (sid s)) ErrCodeStreamClosed (sid s))))
        else if from = StateHalfClosedRemote then
          (s, from, Some (ConnError (StreamAlreadyClosed (sid s)) ErrCodeStreamClosed))
        else if from = StateClosed \<and> (frameType = FrameRSTStream \<or> frameType = FrameWindowUpdate) then
          (if withinGrace s now then (s, from, Some ignoreFrame)
           else (s, from, Some (ConnError (StreamAlreadyClosed (sid s)) ErrCodeProtocol)))
        else (s, from, Some (ConnError (BadStreamState (state s)) ErrCodeProtocol)))
     else
       (let s1 = compareAndSwapState s from to now;
            s2 = (if to = StateClosed \<and> frameType = FrameRSTStream
                  then (if d = recv then s1\<lparr>resetReceived := True\<rparr> else s1\<lparr>resetSent := True\<rparr>)
                  else s1)
        in (s2, to, None)))"

section \<open>The receive flow controller\<close>

text \<open>
  Go's \<open>int\<close> is a signed machine integer of \<open>w\<close> bits, 32 or 64 depending on the build;
  its arithmetic wraps around. \<open>w\<close> is an argument of every function of the receive
  controller that computes with \<open>int\<close>, and each sum or difference the code computes
  there is wrapped by \<open>wrap w\<close>. \<open>int_range w x\<close> says that \<open>x\<close> is a value of the type.
\<close>

definition int_range :: "nat \<Rightarrow> int \<Rightarrow> bool" where
  "int_range w x = (- (2 ^ (w - 1)) \<le> x \<and> x < 2 ^ (w - 1))"

definition wrap :: "nat \<Rightarrow> int \<Rightarrow> int" where
  "wrap w x = (x + 2 ^ (w - 1)) mod 2 ^ w - 2 ^ (w - 1)"

text \<open>\<open>stream_id\<close> is \<open>c.s.id\<close>; the mutex is not modelled (one task runs alone).\<close>

record flowController =
  stream_id :: nat
  win :: int
  winLowerBound :: int
  winUpperBound :: int
  processedWin :: int

text \<open>
  A frame put on the connection's write queue by \<open>writeQueue.add\<close>: the stream id and
  the 32-bit window size increment.
\<close>

datatype frame = WindowUpdateFrame nat nat

text \<open>The method \<open>Stream()\<close> of a frame: its stream id.\<close>

definition Stream :: "frame \<Rightarrow> nat" where
  "Stream f = (case f of WindowUpdateFrame StreamID WindowSizeIncrement \<Rightarrow> StreamID)"

definition updateWindow :: "nat \<Rightarrow> flowController \<Rightarrow> int \<Rightarrow> flowController \<times> error option" where
  "updateWindow w c delta =
    (if delta > 0 \<and> wrap w (maxInitialWindowSize - delta) < win c then
       (c, Some (PlainError WindowSizeOverflow))
     else
       (c\<lparr>win := wrap w (win c + delta),
          processedWin := wrap w (processedWin c + delta),
          winLowerBound := (if delta < 0 then delta else 0)\<rparr>, None))"

definition updateInitialWindow :: "nat \<Rightarrow> flowController \<Rightarrow> int \<Rightarrow> flowController" where
  "updateInitialWindow w c delta =
    (let n = wrap w (winUpperBound c + delta);
         n = (if n < defaultInitialWindowSize then defaultInitialWindowSize else n);
         n = (if n > maxInitialWindowSize then maxInitialWindowSize else n);
         delta = wrap w (n - winUpperBound c)
     in c\<lparr>winUpperBound := wrap w (winUpperBound c + delta)\<rparr>)"

definition incrementInitialWindow ::
  "nat \<Rightarrow> flowController \<Rightarrow> int \<Rightarrow> flowController \<times> error option" where
  "incrementInitialWindow w c delta =
    (if stream_id c = 0 then (c, None)
     else
       (case updateWindow w c delta of
          (c1, None) \<Rightarrow> (updateInitialWindow w c1 delta, None)
        | (c1, Some err) \<Rightarrow> (c1, Some err)))"

subsection \<open>The threshold of \<open>windowUpdate\<close>\<close>

text \<open>
  \<open>int(float32(c.winUpperBound) * windowUpdateRatio)\<close> for a positive upper bound. The
  conversion to \<open>float32\<close> keeps 24 significant bits and rounds to the nearest
  representable value, ties to the even significand: \<open>f32_shift n\<close> is the number of low
  bits that do not fit. The product with 0.5 is exact, and the conversion back to
  \<open>int\<close> drops the fraction; the result is at most a quarter of \<open>2^w\<close>, so it is a value
  of the type.
\<close>

function f32_shift :: "nat \<Rightarrow> nat" where
  "f32_shift n = (if n < 16777216 then 0 else Suc (f32_shift (n div 2)))"
  by pat_completeness auto
termination
  by (relation "measure (\<lambda>n. n)") auto

declare f32_shift.simps [simp del]

definition float32_of_nat :: "nat \<Rightarrow> nat" where
  "float32_of_nat n =
    (let e = f32_shift n; q = n div 2 ^ e; r = n mod 2 ^ e in
     if e = 0 then n
     else if 2 * r > 2 ^ e \<or> (2 * r = 2 ^ e \<and> odd q) then (q + 1) * 2 ^ e
     else q * 2 ^ e)"

definition windowUpdateThreshold :: "int \<Rightarrow> int" where
  "windowUpdateThreshold upper = int (float32_of_nat (nat upper) div 2)"

text \<open>\<open>uint32(delta)\<close> keeps the low 32 bits of \<open>delta\<close>, whatever the width of \<open>int\<close>.\<close>

definition windowUpdate ::
  "nat \<Rightarrow> flowController \<Rightarrow> flowController \<times> frame list \<times> error option" where
  "windowUpdate w c =
    (if winUpperBound c \<le> 0 then (c, [], None)
     else
       (let threshold = windowUpdateThreshold (winUpperBound c) in
        if processedWin c > threshold then (c, [], None)
        else
          (let delta = wrap w (winUpperBound c - processedWin c) in
           case updateWindow w c delta of
             (c1, Some err) \<Rightarrow> (c1, [], Some (ConnError ReturnTooManyBytes ErrCodeInternal))
           | (c1, None) \<Rightarrow>
               (c1, [WindowUpdateFrame (stream_id c) (nat (delta mod 2 ^ 32))], None))))"

definition incrementWindow ::
  "nat \<Rightarrow> flowController \<Rightarrow> int \<Rightarrow> flowController \<times> frame list \<times> error option" where
  "incrementWindow w c delta = windowUpdate w (updateInitialWindow w c delta)"

definition consumedBytes :: "nat \<Rightarrow> flowController \<Rightarrow> int" where
  "consumedBytes w c = wrap w (processedWin c - win c)"

subsection \<open>\<open>consumeBytes\<close> and \<open>returnBytes\<close>\<close>

text \<open>
  Both methods first call themselves on \<open>c.s.conn.connStream.recvFlow\<close> when the
  controller belongs to a stream (\<open>c.s.id != 0\<close>). The connection's controller is a
  separate object whose stream has id 0, so the nested call does not recurse further.
  The model passes the stream's controller \<open>c\<close> and the connection's controller \<open>cc\<close>
  and returns both. When \<open>c\<close> is itself the connection's controller (\<open>stream_id c = 0\<close>)
  the two are one object: \<open>cc\<close> is not read, and the updated \<open>c\<close> is returned in both
  places.

  \<open>consumeBytes_own\<close> and \<open>returnBytes_own\<close> are the parts of the two methods after the
  nested call.
\<close>

definition consumeBytes_own ::
  "nat \<Rightarrow> flowController \<Rightarrow> int \<Rightarrow> flowController \<times> error option" where
  "consumeBytes_own w c n =
    (let c1 = c\<lparr>win := wrap w (win c - n)\<rparr> in
     if win c1 < winLowerBound c1 then
       (if stream_id c1 = 0 then (c1, Some (ConnError WindowSizeLimitExceeded ErrCodeFlowControl))
        else (c1, Some (StreamError WindowSizeLimitExceeded ErrCodeFlowControl (stream_id c1))))
     else (c1, None))"

definition consumeBytes ::
  "nat \<Rightarrow> flowController \<Rightarrow> flowController \<Rightarrow> int
    \<Rightarrow> flowController \<times> flowController \<times> error option" where
  "consumeBytes w c cc n =
    (if n \<le> 0 then (c, cc, None)
     else if stream_id c \<noteq> 0 then
       (case consumeBytes_own w cc n of
          (cc1, Some err) \<Rightarrow> (c, cc1, Some err)
        | (cc1, None) \<Rightarrow>
            (case consumeBytes_own w c n of (c1, err) \<Rightarrow> (c1, cc1, err)))
     else (case consumeBytes_own w c n of (c1, err) \<Rightarrow> (c1, c1, err)))"

definition returnBytes_own ::
  "nat \<Rightarrow> flowController \<Rightarrow> int \<Rightarrow> flowController \<times> frame list \<times> error option" where
  "returnBytes_own w c delta =
    (if wrap w (processedWin c - delta) < win c then
       (if stream_id c = 0 then (c, [], Some (ConnError ReturnTooManyBytes ErrCodeInternal))
        else (c, [], Some (StreamError ReturnTooManyBytes ErrCodeInternal (stream_id c))))
     else windowUpdate w (c\<lparr>processedWin := wrap w (processedWin c - delta)\<rparr>))"

text \<open>The frames are listed in the order in which they are put on the write queue.\<close>

definition returnBytes ::
  "nat \<Rightarrow> flowController \<Rightarrow> flowController \<Rightarrow> int
    \<Rightarrow> flowController \<times> flowController \<times> frame list \<times> error option" where
  "returnBytes w c cc delta =
    (if stream_id c \<noteq> 0 then
       (case returnBytes_own w cc delta of
          (cc1, fs, Some err) \<Rightarrow> (c, cc1, fs, Some err)
        | (cc1, fs, None) \<Rightarrow>
            (case returnBytes_own w c delta of (c1, fs1, err) \<Rightarrow> (c1, cc1, fs @ fs1, err)))
     else (case returnBytes_own w c delta of (c1, fs1, err) \<Rightarrow> (c1, c1, fs1, err)))"

section \<open>The send flow controller\<close>

text \<open>
  \<open>remoteFlowController\<close>: \<open>rstream_id\<close> is \<open>c.s.id\<close>, \<open>rwin\<close> is the field \<open>win\<close> (the
  credit not yet handed to a producer) and \<open>winCh\<close> is the channel.
\<close>

record remoteFlowController =
  rstream_id :: nat
  rwin :: int
  winCh :: "int option"

text \<open>
  Modelled from the spec: the channel \<open>winCh\<close> is created outside the given sources; the
  spec describes it as a single-slot channel. \<open>winCh = Some n\<close> is the slot holding
  \<open>n\<close>, \<open>None\<close> the empty slot. A non-blocking send (\<open>select\<close> with \<open>default\<close>) succeeds
  when the slot is empty, a non-blocking receive when it is full. One task runs alone:
  no other task waits on the channel or changes the controller in between.
\<close>

definition remote_updateWindow ::
  "remoteFlowController \<Rightarrow> int \<Rightarrow> bool \<Rightarrow> remoteFlowController \<times> error option" where
  "remote_updateWindow c delta reset =
    (if delta > 0 \<and> maxInitialWindowSize - delta < rwin c then
       (if rstream_id c = 0 then (c, Some (ConnError WindowSizeOverflow ErrCodeFlowControl))
        else (c, Some (StreamError WindowSizeOverflow ErrCodeFlowControl (rstream_id c))))
     else
       (let c1 = (if reset then
                    (case winCh c of
                       Some n \<Rightarrow> c\<lparr>rwin := rwin c + n, winCh := None\<rparr>
                     | None \<Rightarrow> c)
                  else c);
            c2 = c1\<lparr>rwin := rwin c1 + delta\<rparr>
        in if rwin c2 \<le> 0 then (c2, None)
           else
             (case winCh c2 of
                None \<Rightarrow> (c2\<lparr>winCh := Some (rwin c2), rwin := 0\<rparr>, None)
              | Some m \<Rightarrow> (c2, None))))"

definition remote_incrementInitialWindow ::
  "remoteFlowController \<Rightarrow> int \<Rightarrow> remoteFlowController \<times> error option" where
  "remote_incrementInitialWindow c delta = remote_updateWindow c delta True"




subsection \<open>\<open>allocateBytes\<close>\<close>



section \<open>The settings store\<close>

text \<open>
  \<open>Settings\<close> is a slice of \<open>setting{ID, Value}\<close>; a value is a 32-bit unsigned number,
  kept as a \<open>nat\<close> (the code only compares and stores it). The \<open>nil\<close> slice and the
  empty slice are both \<open>[]\<close>: the code tells them apart only to allocate.
\<close>

type_synonym setting = "SettingID \<times> nat"
type_synonym Settings = "setting list"

definition defaultHeaderTableSize :: nat where
  \<comment> \<open>Modelled from the spec: declared outside the given sources; default 4096.\<close>
  "defaultHeaderTableSize = 4096"

definition defaultEnablePush :: nat where
  \<comment> \<open>Modelled from the spec: declared outside the given sources; default 1.\<close>
  "defaultEnablePush = 1"

definition defaultMaxConcurrentStreams :: nat where
  \<comment> \<open>Modelled from the spec: declared outside the given sources; the spec gives the
     default as unlimited, taken here as the largest 32-bit value.\<close>
  "defaultMaxConcurrentStreams = 4294967295"

definition defaultMaxFrameSize :: nat where
  \<comment> \<open>Modelled from the spec: declared outside the given sources; default 16384.\<close>
  "defaultMaxFrameSize = 16384"

text \<open>\<open>Settings.value\<close>: the first entry with the given id.\<close>

fun lookup_value :: "Settings \<Rightarrow> SettingID \<Rightarrow> nat \<times> bool" where
  "lookup_value [] ident = (0, False)"
| "lookup_value (x # xs) ident = (if fst x = ident then (snd x, True) else lookup_value xs ident)"

definition Value :: "Settings \<Rightarrow> SettingID \<Rightarrow> nat" where
  "Value s ident =
    (case lookup_value s ident of
       (v, True) \<Rightarrow> v
     | (v, False) \<Rightarrow>
         (case ident of
            SettingHeaderTableSize \<Rightarrow> defaultHeaderTableSize
          | SettingEnablePush \<Rightarrow> defaultEnablePush
          | SettingMaxConcurrentStreams \<Rightarrow> defaultMaxConcurrentStreams
          | SettingInitialWindowSize \<Rightarrow> nat defaultInitialWindowSize
          | SettingMaxFrameSize \<Rightarrow> defaultMaxFrameSize
          | SettingMaxHeaderListSize \<Rightarrow> 0
          | SettingUnknown n \<Rightarrow> 0))"

text \<open>
  The loop of \<open>SetValue\<close>: overwrite the first entry with the given id and stop;
  the flag tells whether one was found.
\<close>

fun overwrite_first :: "Settings \<Rightarrow> SettingID \<Rightarrow> nat \<Rightarrow> Settings \<times> bool" where
  "overwrite_first [] ident v = ([], False)"
| "overwrite_first (x # xs) ident v =
    (if fst x = ident then ((fst x, v) # xs, True)
     else (case overwrite_first xs ident v of (ys, ok) \<Rightarrow> (x # ys, ok)))"

definition SetValue :: "Settings \<Rightarrow> SettingID \<Rightarrow> nat \<Rightarrow> Settings \<times> error option" where
  "SetValue s ident v =
    (let ok = (case ident of
                 SettingEnablePush \<Rightarrow> v < 2
               | SettingInitialWindowSize \<Rightarrow> int v \<le> maxInitialWindowSize
               | SettingMaxFrameSize \<Rightarrow>
                   maxFrameSizeLowerBound \<le> int v \<and> int v \<le> maxFrameSizeUpperBound
               | _ \<Rightarrow> True)
     in if \<not> ok then (s, Some (PlainError (InvalidSetting ident v)))
        else
          (case overwrite_first s ident v of
             (s1, True) \<Rightarrow> (s1, None)
           | (s1, False) \<Rightarrow> (s1 @ [(ident, v)], None)))"

section \<open>Header keys\<close>

text \<open>
  A Go string is a sequence of bytes: a \<open>string\<close> here, one \<open>char\<close> a byte.
\<close>

definition isUpper :: "char \<Rightarrow> bool" where
  "isUpper c = (65 \<le> (of_char c :: nat) \<and> (of_char c :: nat) \<le> 90)"

definition lower_byte :: "char \<Rightarrow> char" where
  "lower_byte c = (if isUpper c then char_of ((of_char c :: nat) + 32) else c)"

definition isASCII :: "string \<Rightarrow> bool" where
  "isASCII s = list_all (\<lambda>c. (of_char c :: nat) < 128) s"

text \<open>
  \<open>strings.ToLower\<close> belongs to Go's library. On a string whose bytes are all below 128
  it maps the bytes \<open>A\<close> to \<open>Z\<close> to \<open>a\<close> to \<open>z\<close> and leaves the others. On any other
  string it is \<open>strings.Map(unicode.ToLower, s)\<close>, which decodes the string into code
  points, lowers each by the tables of the library's Unicode version and encodes the
  result, replacing invalid bytes by U+FFFD. That function is the argument \<open>mapLower\<close>
  of the model.
\<close>

definition ToLower :: "(string \<Rightarrow> string) \<Rightarrow> string \<Rightarrow> string" where
  "ToLower mapLower s = (if isASCII s then map lower_byte s else mapLower s)"


definition validHeaderKey :: "string \<Rightarrow> bool" where
  "validHeaderKey v =
    (if length v = 0 then False
     else list_all (\<lambda>c. \<not> ((of_char c :: nat) \<ge> 127 \<or> isUpper c)) v)"

text \<open>The names listed in \<open>init\<close>, in the order of the source.\<close>

definition commonHeaderNames :: "string list" where
  "commonHeaderNames =
    [''Accept'', ''Accept-Charset'', ''Accept-Encoding'', ''Accept-Language'',
     ''Accept-Ranges'', ''Age'', ''Allow'', ''ALPN'', ''Authentication-Info'',
     ''Authorization'', ''Cache-Control'', ''Connection'', ''Content-Disposition'',
     ''Content-Encoding'', ''Content-Language'', ''Content-Length'', ''Content-Location'',
     ''Content-Range'', ''Content-Type'', ''Cookie'', ''DASL'', ''DAV'', ''Date'',
     ''Depth'', ''Destination'', ''ETag'', ''Expect'', ''Expires'', ''Forwarded'',
     ''From'', ''Host'', ''HTTP2-Settings'', ''If'', ''If-Match'', ''If-Modified-Since'',
     ''If-None-Match'', ''If-Range'', ''If-Schedule-Tag-Match'', ''If-Unmodified-Since'',
     ''Last-Modified'', ''Location'', ''Lock-Token'', ''Max-Forwards'', ''MIME-Version'',
     ''Ordering-Type'', ''Origin'', ''Overwrite'', ''Position'', ''Pragma'', ''Prefer'',
     ''Preference-Applied'', ''Proxy-Authenticate'', ''Proxy-Authentication-Info'',
     ''Proxy-Authorization'', ''Public-Key-Pins'', ''Public-Key-Pins-Report-Only'',
     ''Range'', ''Referer'', ''Retry-After'', ''Schedule-Reply'', ''Schedule-Tag'',
     ''Sec-WebSocket-Accept'', ''Sec-WebSocket-Extensions'', ''Sec-WebSocket-Key'',
     ''Sec-WebSocket-Protocol'', ''Sec-WebSocket-Version'', ''Server'', ''Set-Cookie'',
     ''SLUG'', ''Strict-Transport-Security'', ''TE'', ''Timeout'', ''Trailer'',
     ''Transfer-Encoding'', ''Upgrade'', ''User-Agent'', ''Vary'', ''Via'',
     ''WWW-Authenticate'', ''Warning'', ''Access-Control-Allow-Credentials'',
     ''Access-Control-Allow-Headers'', ''Access-Control-Allow-Methods'',
     ''Access-Control-Allow-Origin'', ''Access-Control-Max-Age'',
     ''Access-Control-Request-Method'', ''Access-Control-Request-Headers'', ''Compliance'',
     ''Content-Transfer-Encoding'', ''Cost'', ''EDIINT-Features'', ''Message-ID'',
     ''Non-Compliance'', ''Optional'', ''Resolution-Hint'', ''Resolver-Location'',
     ''SubOK'', ''Subst'', ''Title'', ''UA-Color'', ''UA-Media'', ''UA-Pixels'',
     ''UA-Resolution'', ''UA-Windowpixels'', ''Version'', ''X-Device-Accept'',
     ''X-Device-Accept-Charset'', ''X-Device-Accept-Encoding'',
     ''X-Device-Accept-Language'', ''X-Device-User-Agent'']"

text \<open>
  The table \<open>commonHeader\<close> as \<open>init\<close> fills it: for each name \<open>v\<close> in turn,
  \<open>commonHeader[v] = lower\<close> and \<open>commonHeader[lower] = lower\<close>, where \<open>lower\<close> is
  \<open>strings.ToLower(v)\<close>.
\<close>

definition fill_commonHeader :: "(string \<Rightarrow> string) \<Rightarrow> string list \<Rightarrow> (string \<rightharpoonup> string)" where
  "fill_commonHeader mapLower names =
    foldl (\<lambda>m v. (m(v \<mapsto> ToLower mapLower v))(ToLower mapLower v \<mapsto> ToLower mapLower v))
      Map.empty names"

definition commonHeader :: "(string \<Rightarrow> string) \<Rightarrow> (string \<rightharpoonup> string)" where
  "commonHeader mapLower = fill_commonHeader mapLower commonHeaderNames"

definition CanonicalHTTP2HeaderKey :: "(string \<Rightarrow> string) \<Rightarrow> string \<Rightarrow> string" where
  "CanonicalHTTP2HeaderKey mapLower s =
    (case commonHeader mapLower s of
       Some v \<Rightarrow> v
     | None \<Rightarrow> (if validHeaderKey s then s else ToLower mapLower s))"

definition badHeader :: "string \<Rightarrow> bool" where
  "badHeader key =
    (key = ''connection'' \<or> key = ''keep-alive'' \<or> key = ''proxy-connection''
     \<or> key = ''transfer-encoding'' \<or> key = ''host'' \<or> key = ''upgrade'')"

section \<open>Adding headers\<close>

text \<open>
  \<open>Header\<close> is a map from a key to its list of values. \<open>h[key]\<close> of a missing key is
  the empty slice. The map is taken to be allocated (\<open>requestToHeader\<close> makes it before
  it calls \<open>addHeader\<close>).
\<close>

type_synonym Header = "string \<rightharpoonup> string list"

definition values_of :: "Header \<Rightarrow> string \<Rightarrow> string list" where
  "values_of h key = (case h key of None \<Rightarrow> [] | Some vv \<Rightarrow> vv)"

text \<open>\<open>Header.Add\<close>; \<open>key[0]\<close> of the empty key is an index out of range.\<close>

definition Add :: "(string \<Rightarrow> string) \<Rightarrow> Header \<Rightarrow> string \<Rightarrow> string \<Rightarrow> error + Header" where
  "Add mapLower h key v =
    (case key of
       [] \<Rightarrow> Inl RuntimePanic
     | k0 # rest \<Rightarrow>
         (if k0 \<noteq> CHR '':'' then
            (let key1 = CanonicalHTTP2HeaderKey mapLower key
             in Inr (h(key1 \<mapsto> values_of h key1 @ [v])))
          else Inr h))"

text \<open>\<open>for _, v := range vv { h.Add(k, v) }\<close>\<close>

fun Add_each :: "(string \<Rightarrow> string) \<Rightarrow> Header \<Rightarrow> string \<Rightarrow> string list \<Rightarrow> error + Header" where
  "Add_each mapLower h k [] = Inr h"
| "Add_each mapLower h k (v # vv) =
    (case Add mapLower h k v of Inl e \<Rightarrow> Inl e | Inr h1 \<Rightarrow> Add_each mapLower h1 k vv)"

text \<open>
  \<open>strings.IndexByte\<close> (\<open>-1\<close> when the byte does not occur) and \<open>strings.Split\<close> with a
  separator of one byte.
\<close>

fun IndexByte :: "string \<Rightarrow> char \<Rightarrow> int" where
  "IndexByte [] c = - 1"
| "IndexByte (x # xs) c =
    (if x = c then 0 else (let i = IndexByte xs c in if i < 0 then - 1 else i + 1))"

fun Split :: "string \<Rightarrow> char \<Rightarrow> string list" where
  "Split [] sep = [[]]"
| "Split (x # xs) sep =
    (if x = sep then [] # Split xs sep
     else (case Split xs sep of [] \<Rightarrow> [[x]] | y # ys \<Rightarrow> (x # y) # ys))"

text \<open>
  \<open>strings.TrimSpace\<close> belongs to Go's library. On a string whose bytes are all below
  128 it drops, at both ends, the bytes tab, line feed, vertical tab, form feed,
  carriage return and space. On any other string it trims by \<open>unicode.IsSpace\<close> over
  code points (\<open>strings.TrimFunc(s, unicode.IsSpace)\<close>), which also drops white space
  such as U+0085 and U+00A0. That function is the argument \<open>trimFunc\<close> of the model.
\<close>

definition isSpace :: "char \<Rightarrow> bool" where
  "isSpace c = ((9 \<le> (of_char c :: nat) \<and> (of_char c :: nat) \<le> 13) \<or> (of_char c :: nat) = 32)"

definition TrimSpace :: "(string \<Rightarrow> string) \<Rightarrow> string \<Rightarrow> string" where
  "TrimSpace trimFunc s =
    (if isASCII s then rev (dropWhile isSpace (rev (dropWhile isSpace s))) else trimFunc s)"

text \<open>The loop over the values of a \<open>cookie\<close> header.\<close>

fun add_cookies ::
  "(string \<Rightarrow> string) \<Rightarrow> (string \<Rightarrow> string) \<Rightarrow> Header \<Rightarrow> string \<Rightarrow> string list
    \<Rightarrow> error + Header" where
  "add_cookies trimFunc mapLower h k [] = Inr h"
| "add_cookies trimFunc mapLower h k (v # vv) =
    (case (if IndexByte v CHR '';'' > 0
           then Add_each mapLower h k (map (TrimSpace trimFunc) (Split v CHR '';''))
           else Add mapLower h k v) of
       Inl e \<Rightarrow> Inl e
     | Inr h1 \<Rightarrow> add_cookies trimFunc mapLower h1 k vv)"

text \<open>
  \<open>Header.addHeader\<close>. Go visits the entries of a map in an order of its choosing; the
  argument lists them in the order visited. The test of a \<open>te\<close> header reads
  \<open>k == "te" && len(vv) != 1 && strings.ToLower(vv[0]) != "trailers"\<close>; \<open>vv[0]\<close> of an
  empty slice is an index out of range.
\<close>

fun addHeader ::
  "(string \<Rightarrow> string) \<Rightarrow> (string \<Rightarrow> string) \<Rightarrow> Header \<Rightarrow> (string \<times> string list) list
    \<Rightarrow> error + Header" where
  "addHeader trimFunc mapLower h [] = Inr h"
| "addHeader trimFunc mapLower h ((k0, vv) # header) =
    (let k = CanonicalHTTP2HeaderKey mapLower k0 in
     if badHeader k then addHeader trimFunc mapLower h header
     else if k = ''cookie'' then
       (case add_cookies trimFunc mapLower h k vv of
          Inl e \<Rightarrow> Inl e
        | Inr h1 \<Rightarrow> addHeader trimFunc mapLower h1 header)
     else if k = ''te'' \<and> length vv \<noteq> 1 then
       (case vv of
          [] \<Rightarrow> Inl RuntimePanic
        | v0 # rest \<Rightarrow>
            (if ToLower mapLower v0 \<noteq> ''trailers''
             then Inl (MalformedError (''bad value for te: '' @ v0))
             else (case Add_each mapLower h k vv of
                     Inl e \<Rightarrow> Inl e
                   | Inr h1 \<Rightarrow> addHeader trimFunc mapLower h1 header)))
     else (case Add_each mapLower h k vv of
             Inl e \<Rightarrow> Inl e
           | Inr h1 \<Rightarrow> addHeader trimFunc mapLower h1 header))"

section \<open>Results on the stream state machine\<close>

text \<open>
  C1. Whenever the switches over state and frame type reach \<open>ok = true\<close> with a state
  \<open>to\<close>: with END_STREAM set, \<open>dir.transition\<close> returns HalfClosedRemote (receiving) or
  HalfClosedLocal (sending) when \<open>to\<close> is Open, Closed when \<open>to\<close> is HalfClosedLocal or
  HalfClosedRemote, and \<open>to\<close> itself in every other state; without END_STREAM it
  returns \<open>to\<close> itself.
\<close>

theorem dir_transition_end_stream:
  assumes "transition_table d from ft = Some to"
  shows "(endStream \<and> to = StateOpen \<longrightarrow>
            dir_transition d from ft endStream =
              (if d = recv then StateHalfClosedRemote else StateHalfClosedLocal, True))
       \<and> (endStream \<and> (to = StateHalfClosedLocal \<or> to = StateHalfClosedRemote) \<longrightarrow>
            dir_transition d from ft endStream = (StateClosed, True))
       \<and> (endStream \<and> to \<noteq> StateOpen \<and> to \<noteq> StateHalfClosedLocal
            \<and> to \<noteq> StateHalfClosedRemote \<longrightarrow>
            dir_transition d from ft endStream = (to, True))
       \<and> (\<not> endStream \<longrightarrow> dir_transition d from ft endStream = (to, True))"
  using assms by (cases to) (auto simp: dir_transition_def)

theorem dir_transition_end_stream_witness:
  "transition_table recv StateIdle FrameHeaders = Some StateOpen
   \<and> dir_transition recv StateIdle FrameHeaders True = (StateHalfClosedRemote, True)
   \<and> dir_transition send StateIdle FrameHeaders True = (StateHalfClosedLocal, True)
   \<and> dir_transition recv StateReservedRemote FrameHeaders True = (StateClosed, True)
   \<and> dir_transition send StateReservedLocal FrameHeaders True = (StateClosed, True)
   \<and> dir_transition recv StateIdle FrameHeaders False = (StateOpen, True)"
proof -
  have a: "transition_table recv StateIdle FrameHeaders = Some StateOpen"
    by (simp add: transition_table_def)
  have b: "transition_table send StateIdle FrameHeaders = Some StateOpen"
    by (simp add: transition_table_def)
  have c: "transition_table recv StateReservedRemote FrameHeaders = Some StateHalfClosedLocal"
    by (simp add: transition_table_def)
  have d: "transition_table send StateReservedLocal FrameHeaders = Some StateHalfClosedRemote"
    by (simp add: transition_table_def)
  from dir_transition_end_stream [OF a, of True] dir_transition_end_stream [OF a, of False]
    dir_transition_end_stream [OF b, of True] dir_transition_end_stream [OF c, of True]
    dir_transition_end_stream [OF d, of True] a
  show ?thesis by simp
qed

lemma recv_closed_table:
  "ft = FrameRSTStream \<or> ft = FrameWindowUpdate \<Longrightarrow> transition_table recv StateClosed ft = None"
  by (auto simp: transition_table_def)

text \<open>
  C3, as the code has it. On a stream in state Closed a received WINDOW_UPDATE or
  RST_STREAM leaves the stream as it is and returns an error that depends on the reset
  flags, which are tested first: with \<open>resetReceived\<close> a stream error STREAM_CLOSED at any
  time; otherwise with \<open>resetSent\<close> \<open>ignoreFrame\<close> up to 5 seconds after the close and a
  stream error STREAM_CLOSED later; with neither flag \<open>ignoreFrame\<close> up to 5 seconds
  after the close and a connection error PROTOCOL_ERROR later.
\<close>

theorem closed_recv_rst_or_window_update:
  assumes "state s = StateClosed"
    and "ft = FrameRSTStream \<or> ft = FrameWindowUpdate"
  shows "stream_transition s recv ft endStream now =
      (s, StateClosed,
       Some (if resetReceived s then
               StreamError (StreamAlreadyClosed (sid s)) ErrCodeStreamClosed (sid s)
             else if resetSent s then
               (if now - closed s \<le> 5000000000 then ignoreFrame
                else StreamError (StreamAlreadyClosed (sid s)) ErrCodeStreamClosed (sid s))
             else if now - closed s \<le> 5000000000 then ignoreFrame
             else ConnError (StreamAlreadyClosed (sid s)) ErrCodeProtocol))"
  using assms recv_closed_table [of ft]
  by (auto simp: stream_transition_def dir_transition_def withinGrace_def)

theorem closed_recv_rst_or_window_update_witness:
  "stream_transition
     \<lparr>sid = 5, state = StateClosed, resetSent = False, resetReceived = False, closed = 0\<rparr>
     recv FrameWindowUpdate False 2000000000
   = (\<lparr>sid = 5, state = StateClosed, resetSent = False, resetReceived = False, closed = 0\<rparr>,
      StateClosed, Some ignoreFrame)
   \<and> stream_transition
     \<lparr>sid = 5, state = StateClosed, resetSent = False, resetReceived = False, closed = 0\<rparr>
     recv FrameRSTStream False 6000000000
   = (\<lparr>sid = 5, state = StateClosed, resetSent = False, resetReceived = False, closed = 0\<rparr>,
      StateClosed, Some (ConnError (StreamAlreadyClosed 5) ErrCodeProtocol))"
  using closed_recv_rst_or_window_update
      [of "\<lparr>sid = 5, state = StateClosed, resetSent = False, resetReceived = False, closed = 0\<rparr>"
          FrameWindowUpdate False 2000000000]
    closed_recv_rst_or_window_update
      [of "\<lparr>sid = 5, state = StateClosed, resetSent = False, resetReceived = False, closed = 0\<rparr>"
          FrameRSTStream False 6000000000]
  by simp

text \<open>
  C3 as stated fails: stream 5 is Open, an RST_STREAM is sent on it at time 0 (it becomes
  Closed with \<open>resetSent\<close>), and a WINDOW_UPDATE is received 6 seconds later. The result is
  a stream error STREAM_CLOSED, not a connection error PROTOCOL_ERROR.
\<close>

theorem closed_recv_counterexample:
  "stream_transition
     \<lparr>sid = 5, state = StateOpen, resetSent = False, resetReceived = False, closed = 0\<rparr>
     send FrameRSTStream False 0
   = (\<lparr>sid = 5, state = StateClosed, resetSent = True, resetReceived = False, closed = 0\<rparr>,
      StateClosed, None)
   \<and> stream_transition
     \<lparr>sid = 5, state = StateClosed, resetSent = True, resetReceived = False, closed = 0\<rparr>
     recv FrameWindowUpdate False 6000000000
   = (\<lparr>sid = 5, state = StateClosed, resetSent = True, resetReceived = False, closed = 0\<rparr>,
      StateClosed, Some (StreamError (StreamAlreadyClosed 5) ErrCodeStreamClosed 5))"
  by (simp add: stream_transition_def dir_transition_def transition_table_def withinGrace_def
      compareAndSwapState_def)

lemma recv_hcr_table:
  "transition_table recv StateHalfClosedRemote ft =
     (if ft = FrameRSTStream then Some StateClosed
      else if ft = FramePriority \<or> ft = FrameWindowUpdate then Some StateHalfClosedRemote
      else None)"
  by (cases ft) (simp_all add: transition_table_def)

text \<open>
  C4, as the code has it. On a stream in state HalfClosedRemote a received RST_STREAM
  moves the stream to Closed (marking \<open>resetReceived\<close> and the time of the close); a
  received PRIORITY or WINDOW_UPDATE without END_STREAM is accepted and changes nothing;
  a received frame of any other type, on a stream with neither reset flag set, is a
  connection error STREAM_CLOSED and changes nothing.
\<close>

theorem half_closed_remote_recv:
  assumes "state s = StateHalfClosedRemote"
  shows "(ft = FrameRSTStream \<longrightarrow>
            stream_transition s recv ft endStream now =
              (s\<lparr>state := StateClosed, closed := now, resetReceived := True\<rparr>, StateClosed, None))
       \<and> ((ft = FramePriority \<or> ft = FrameWindowUpdate) \<and> \<not> endStream \<longrightarrow>
            stream_transition s recv ft endStream now = (s, StateHalfClosedRemote, None))
       \<and> (ft \<noteq> FrameRSTStream \<and> ft \<noteq> FramePriority \<and> ft \<noteq> FrameWindowUpdate
            \<and> \<not> resetReceived s \<and> \<not> resetSent s \<longrightarrow>
            stream_transition s recv ft endStream now =
              (s, StateHalfClosedRemote,
               Some (ConnError (StreamAlreadyClosed (sid s)) ErrCodeStreamClosed)))"
  using assms
  by (auto simp: stream_transition_def dir_transition_def recv_hcr_table compareAndSwapState_def)

theorem half_closed_remote_recv_witness:
  "stream_transition
     \<lparr>sid = 1, state = StateHalfClosedRemote, resetSent = False, resetReceived = False, closed = 0\<rparr>
     recv FrameRSTStream False 7
   = (\<lparr>sid = 1, state = StateClosed, resetSent = False, resetReceived = True, closed = 7\<rparr>,
      StateClosed, None)
   \<and> stream_transition
     \<lparr>sid = 1, state = StateHalfClosedRemote, resetSent = False, resetReceived = False, closed = 0\<rparr>
     recv FramePriority False 7
   = (\<lparr>sid = 1, state = StateHalfClosedRemote, resetSent = False, resetReceived = False, closed = 0\<rparr>,
      StateHalfClosedRemote, None)
   \<and> stream_transition
     \<lparr>sid = 1, state = StateHalfClosedRemote, resetSent = False, resetReceived = False, closed = 0\<rparr>
     recv FrameData True 7
   = (\<lparr>sid = 1, state = StateHalfClosedRemote, resetSent = False, resetReceived = False, closed = 0\<rparr>,
      StateHalfClosedRemote, Some (ConnError (StreamAlreadyClosed 1) ErrCodeStreamClosed))"
  using half_closed_remote_recv
      [of "\<lparr>sid = 1, state = StateHalfClosedRemote, resetSent = False, resetReceived = False, closed = 0\<rparr>"
          FrameRSTStream False 7]
    half_closed_remote_recv
      [of "\<lparr>sid = 1, state = StateHalfClosedRemote, resetSent = False, resetReceived = False, closed = 0\<rparr>"
          FramePriority False 7]
    half_closed_remote_recv
      [of "\<lparr>sid = 1, state = StateHalfClosedRemote, resetSent = False, resetReceived = False, closed = 0\<rparr>"
          FrameData True 7]
  by simp

text \<open>
  C4 as stated fails: a WINDOW_UPDATE received on a stream in state HalfClosedRemote is
  accepted; the stream stays as it is and no error is returned.
\<close>

theorem half_closed_remote_counterexample:
  "stream_transition
     \<lparr>sid = 1, state = StateHalfClosedRemote, resetSent = False, resetReceived = False, closed = 0\<rparr>
     recv FrameWindowUpdate False 0
   = (\<lparr>sid = 1, state = StateHalfClosedRemote, resetSent = False, resetReceived = False, closed = 0\<rparr>,
      StateHalfClosedRemote, None)"
  by (simp add: stream_transition_def dir_transition_def transition_table_def compareAndSwapState_def)

section \<open>Results on the receive flow controller\<close>

text \<open>A value of the type is not changed by wrapping.\<close>

lemma wrap_id: "0 < w \<Longrightarrow> int_range w x \<Longrightarrow> wrap w x = x"
proof -
  assume w: "0 < w" and r: "int_range w x"
  obtain k where k: "w = Suc k" using w by (cases w) auto
  have p: "(2::int) ^ w = 2 * 2 ^ (w - 1)" by (simp add: k)
  have "0 \<le> x + 2 ^ (w - 1)" "x + 2 ^ (w - 1) < 2 ^ w"
    using r by (simp_all add: int_range_def p)
  then have "(x + 2 ^ (w - 1)) mod 2 ^ w = x + 2 ^ (w - 1)" by simp
  then show ?thesis by (simp add: wrap_def)
qed

lemma pow_ge_31: "32 \<le> w \<Longrightarrow> (2147483648::int) \<le> 2 ^ (w - 1)"
proof -
  assume "32 \<le> w"
  then have "(2::int) ^ 31 \<le> 2 ^ (w - 1)" by (intro power_increasing) auto
  then show ?thesis by simp
qed

text \<open>
  C5, as the code has it. For a stream's controller \<open>c\<close> and the connection's controller
  \<open>cc\<close>: \<open>consumeBytes(n)\<close> with \<open>n \<le> 0\<close> changes nothing and returns no error. With
  \<open>n > 0\<close>, and as long as the differences \<open>win - n\<close> that the code computes are values
  of Go's \<open>int\<close>, the connection's window drops by \<open>n\<close>. If it drops below the
  connection's lower bound, the call returns a connection error FLOW_CONTROL_ERROR and
  the stream's window is left as it was. Otherwise the stream's window drops by \<open>n\<close>
  too, and the call returns a stream error FLOW_CONTROL_ERROR exactly when the stream's
  window is then below the stream's lower bound.
\<close>

theorem consumeBytes_effect:
  assumes "stream_id c \<noteq> 0" and "stream_id cc = 0" and "0 < w"
  shows "(n \<le> 0 \<longrightarrow> consumeBytes w c cc n = (c, cc, None))
       \<and> (0 < n \<and> int_range w (win cc - n) \<and> win cc - n < winLowerBound cc \<longrightarrow>
            consumeBytes w c cc n =
              (c, cc\<lparr>win := win cc - n\<rparr>,
               Some (ConnError WindowSizeLimitExceeded ErrCodeFlowControl)))
       \<and> (0 < n \<and> int_range w (win cc - n) \<and> int_range w (win c - n)
            \<and> winLowerBound cc \<le> win cc - n \<and> win c - n < winLowerBound c \<longrightarrow>
            consumeBytes w c cc n =
              (c\<lparr>win := win c - n\<rparr>, cc\<lparr>win := win cc - n\<rparr>,
               Some (StreamError WindowSizeLimitExceeded ErrCodeFlowControl (stream_id c))))
       \<and> (0 < n \<and> int_range w (win cc - n) \<and> int_range w (win c - n)
            \<and> winLowerBound cc \<le> win cc - n \<and> winLowerBound c \<le> win c - n \<longrightarrow>
            consumeBytes w c cc n = (c\<lparr>win := win c - n\<rparr>, cc\<lparr>win := win cc - n\<rparr>, None))"
  using assms by (simp add: consumeBytes_def consumeBytes_own_def wrap_id)

theorem consumeBytes_effect_witness:
  "consumeBytes 64
     \<lparr>stream_id = 1, win = 100, winLowerBound = 0, winUpperBound = 65535, processedWin = 65535\<rparr>
     \<lparr>stream_id = 0, win = 65535, winLowerBound = 0, winUpperBound = 65535, processedWin = 65535\<rparr>
     200
   = (\<lparr>stream_id = 1, win = - 100, winLowerBound = 0, winUpperBound = 65535, processedWin = 65535\<rparr>,
      \<lparr>stream_id = 0, win = 65335, winLowerBound = 0, winUpperBound = 65535, processedWin = 65535\<rparr>,
      Some (StreamError WindowSizeLimitExceeded ErrCodeFlowControl 1))
   \<and> consumeBytes 32
     \<lparr>stream_id = 1, win = 100, winLowerBound = 0, winUpperBound = 65535, processedWin = 65535\<rparr>
     \<lparr>stream_id = 0, win = 65535, winLowerBound = 0, winUpperBound = 65535, processedWin = 65535\<rparr>
     60
   = (\<lparr>stream_id = 1, win = 40, winLowerBound = 0, winUpperBound = 65535, processedWin = 65535\<rparr>,
      \<lparr>stream_id = 0, win = 65475, winLowerBound = 0, winUpperBound = 65535, processedWin = 65535\<rparr>,
      None)"
  using consumeBytes_effect
      [of "\<lparr>stream_id = 1, win = 100, winLowerBound = 0, winUpperBound = 65535, processedWin = 65535\<rparr>"
          "\<lparr>stream_id = 0, win = 65535, winLowerBound = 0, winUpperBound = 65535, processedWin = 65535\<rparr>"
          64 200]
    consumeBytes_effect
      [of "\<lparr>stream_id = 1, win = 100, winLowerBound = 0, winUpperBound = 65535, processedWin = 65535\<rparr>"
          "\<lparr>stream_id = 0, win = 65535, winLowerBound = 0, winUpperBound = 65535, processedWin = 65535\<rparr>"
          32 60]
  by (simp add: int_range_def)

text \<open>
  C5 as stated fails: the connection's window holds 100 bytes and a stream with a full
  window consumes 200. The call is a connection error, and the stream's window is still
  65535, not 65335.
\<close>

theorem consumeBytes_counterexample:
  "consumeBytes 64
     \<lparr>stream_id = 1, win = 65535, winLowerBound = 0, winUpperBound = 65535, processedWin = 65535\<rparr>
     \<lparr>stream_id = 0, win = 100, winLowerBound = 0, winUpperBound = 65535, processedWin = 65535\<rparr>
     200
   = (\<lparr>stream_id = 1, win = 65535, winLowerBound = 0, winUpperBound = 65535, processedWin = 65535\<rparr>,
      \<lparr>stream_id = 0, win = - 100, winLowerBound = 0, winUpperBound = 65535, processedWin = 65535\<rparr>,
      Some (ConnError WindowSizeLimitExceeded ErrCodeFlowControl))"
  by (simp add: consumeBytes_def consumeBytes_own_def wrap_def)

lemma float32_of_nat_exact: "n \<le> 16777216 \<Longrightarrow> float32_of_nat n = n"
proof (cases "n < 16777216")
  case True
  then show ?thesis by (simp add: float32_of_nat_def f32_shift.simps)
next
  case False
  assume "n \<le> 16777216"
  with False have "n = 16777216" by simp
  then show ?thesis by (simp add: float32_of_nat_def f32_shift.simps)
qed

lemma windowUpdateThreshold_exact:
  assumes "0 < u" and "u \<le> 16777216"
  shows "windowUpdateThreshold u = u div 2"
proof -
  have "nat u \<le> 16777216" using assms by simp
  then have "float32_of_nat (nat u) = nat u" by (rule float32_of_nat_exact)
  then show ?thesis using assms by (simp add: windowUpdateThreshold_def zdiv_int)
qed

lemma f32_shift_lower: "0 < f32_shift n \<Longrightarrow> 8388608 \<le> n div 2 ^ f32_shift n"
proof (induction n rule: f32_shift.induct)
  case (1 n)
  show ?case
  proof (cases "n < 16777216")
    case True
    then have "f32_shift n = 0" by (simp add: f32_shift.simps)
    with "1.prems" show ?thesis by simp
  next
    case False
    then have eq: "f32_shift n = Suc (f32_shift (n div 2))" by (simp add: f32_shift.simps [of n])
    have dv: "n div 2 ^ f32_shift n = (n div 2) div 2 ^ f32_shift (n div 2)"
      by (simp add: eq div_mult2_eq)
    show ?thesis
    proof (cases "f32_shift (n div 2) = 0")
      case True
      then show ?thesis using False dv by simp
    next
      case False
      then have "0 < f32_shift (n div 2)" by simp
      from "1.IH" [OF \<open>\<not> n < 16777216\<close> this] show ?thesis using dv by simp
    qed
  qed
qed

lemma float32_of_nat_half_less: "0 < n \<Longrightarrow> float32_of_nat n div 2 < n"
proof (cases "f32_shift n = 0")
  case True
  assume "0 < n"
  then show ?thesis using True by (simp add: float32_of_nat_def)
next
  case False
  assume "0 < n"
  define e where "e = f32_shift n"
  define q where "q = n div 2 ^ e"
  have e: "0 < e" using False by (simp add: e_def)
  then obtain k where k: "e = Suc k" by (cases e) auto
  have q: "8388608 \<le> q" using f32_shift_lower [of n] e by (simp add: q_def e_def)
  have up: "float32_of_nat n \<le> (q + 1) * 2 ^ e"
    using e by (simp add: float32_of_nat_def Let_def e_def [symmetric] q_def [symmetric])
  have "float32_of_nat n div 2 \<le> ((q + 1) * 2 ^ e) div 2" using up by (rule div_le_mono)
  also have "\<dots> = (q + 1) * 2 ^ k" by (simp add: k)
  also have "\<dots> < (2 * q) * 2 ^ k" using q by simp
  also have "\<dots> = q * 2 ^ e" by (simp add: k)
  also have "\<dots> \<le> n" by (simp add: q_def)
  finally show ?thesis .
qed

lemma windowUpdateThreshold_less: "0 < u \<Longrightarrow> windowUpdateThreshold u < u"
  using float32_of_nat_half_less [of "nat u"] by (simp add: windowUpdateThreshold_def)


lemma returnBytes_own_emit:
  assumes "32 \<le> w"
    and "0 < winUpperBound c" and "winUpperBound c \<le> maxInitialWindowSize"
    and "int_range w (win c)" and "int_range w (processedWin c)"
    and "0 \<le> delta"
    and "win c \<le> processedWin c - delta"
    and "winUpperBound c - (processedWin c - delta) \<le> maxInitialWindowSize"
    and "processedWin c - delta \<le> windowUpdateThreshold (winUpperBound c)"
  shows "returnBytes_own w c delta =
    (c\<lparr>win := win c + (winUpperBound c - (processedWin c - delta)),
       winLowerBound := 0,
       processedWin := winUpperBound c\<rparr>,
     [WindowUpdateFrame (stream_id c) (nat (winUpperBound c - (processedWin c - delta)))], None)"
proof -
  define p where "p = processedWin c - delta"
  define acc where "acc = winUpperBound c - p"
  have w: "0 < w" using assms(1) by simp
  have big: "(2147483648::int) \<le> 2 ^ (w - 1)" using assms(1) by (rule pow_ge_31)
  have rp: "int_range w p"
    using assms(4,5,6,7) by (simp add: int_range_def p_def)
  have wp: "wrap w (processedWin c - delta) = p" using wrap_id [OF w rp] by (simp add: p_def)
  have pos: "0 < acc"
    using assms(9) windowUpdateThreshold_less [OF assms(2)] by (simp add: acc_def p_def)
  have accmax: "acc \<le> 2147483647" using assms(8) by (simp add: acc_def p_def maxInitialWindowSize_def)
  have racc: "int_range w acc" using pos accmax big by (simp add: int_range_def)
  have wacc: "wrap w (winUpperBound c - p) = acc" using wrap_id [OF w racc] by (simp add: acc_def)
  have wguard: "wrap w (maxInitialWindowSize - acc) = maxInitialWindowSize - acc"
    using pos accmax big by (intro wrap_id [OF w]) (simp add: int_range_def maxInitialWindowSize_def)
  have room: "\<not> maxInitialWindowSize - acc < win c"
    using assms(3,7) by (simp add: acc_def p_def)
  have rwin: "int_range w (win c + acc)"
    using assms(3,4,7) pos big by (simp add: int_range_def acc_def p_def maxInitialWindowSize_def)
  have wwin: "wrap w (win c + acc) = win c + acc" using wrap_id [OF w rwin] .
  have rsum: "int_range w (p + acc)"
    using assms(2,3) big by (simp add: int_range_def acc_def maxInitialWindowSize_def)
  have wsum: "wrap w (p + acc) = winUpperBound c" using wrap_id [OF w rsum] by (simp add: acc_def)
  have fit: "acc mod 4294967296 = acc" using pos accmax by simp
  have le: "\<not> windowUpdateThreshold (winUpperBound c) < p" using assms(9) by (simp add: p_def)
  have nlt: "\<not> p < win c" using assms(7) by (simp add: p_def)
  have "returnBytes_own w c delta =
    (c\<lparr>win := win c + acc, winLowerBound := 0, processedWin := winUpperBound c\<rparr>,
     [WindowUpdateFrame (stream_id c) (nat acc)], None)"
    using assms(2) nlt le pos room
    by (simp add: returnBytes_own_def wp windowUpdate_def wacc updateWindow_def wguard wwin wsum
        fit Let_def)
  then show ?thesis by (simp add: acc_def p_def)
qed

lemma returnBytes_own_quiet:
  assumes "0 < w" and "0 < winUpperBound c"
    and "int_range w (win c)" and "int_range w (processedWin c)"
    and "0 \<le> delta"
    and "win c \<le> processedWin c - delta"
    and "windowUpdateThreshold (winUpperBound c) < processedWin c - delta"
  shows "returnBytes_own w c delta = (c\<lparr>processedWin := processedWin c - delta\<rparr>, [], None)"
proof -
  have rp: "int_range w (processedWin c - delta)"
    using assms(3,4,5,6) by (simp add: int_range_def)
  show ?thesis
    using assms(2,6,7)
    by (simp add: returnBytes_own_def wrap_id [OF assms(1) rp] windowUpdate_def Let_def)
qed

lemma windowUpdate_frames:
  "windowUpdate w x = (x1, fs, e) \<Longrightarrow> \<forall>f\<in>set fs. Stream f = stream_id x"
  by (auto simp: windowUpdate_def Let_def Stream_def split: if_splits prod.splits option.splits)

lemma returnBytes_own_frames:
  "returnBytes_own w x d = (x1, fs, e) \<Longrightarrow> \<forall>f\<in>set fs. Stream f = stream_id x"
  using windowUpdate_frames [of w "x\<lparr>processedWin := wrap w (processedWin x - d)\<rparr>" x1 fs e]
  by (auto simp: returnBytes_own_def split: if_splits)

lemma filter_other_stream:
  "\<forall>f\<in>set fs. Stream f = j \<Longrightarrow> j \<noteq> i \<Longrightarrow> filter (\<lambda>f. Stream f = i) fs = []"
  by (induction fs) auto

text \<open>
  C6, as the code has it. Let \<open>int\<close> have at least 32 bits and the window and the
  processed window be values of the type. Let the upper bound \<open>u\<close> of a receive
  controller be positive and at most \<open>2^31 - 1\<close>, let \<open>returnBytes(delta)\<close> return a
  count \<open>delta \<ge> 0\<close> that is not more than was consumed, and let the amount
  \<open>acc = u - (processedWin - delta)\<close> returned and not yet credited be at most
  \<open>2^31 - 1\<close>. On a stream's controller the connection's controller, whose stream has id
  0, is served first: if that nested call fails, its error is returned and the stream's
  controller is left as it was. Otherwise (and on the connection's controller itself) the
  call succeeds. If \<open>processedWin - delta\<close> is at most the threshold
  \<open>int(float32(u) * 0.5)\<close>, exactly one WINDOW_UPDATE frame is queued for the
  controller's own stream, its increment is \<open>acc\<close>, the counter is reset
  (\<open>processedWin = u\<close>) and the window grows by \<open>acc\<close>, so that the window and the bytes
  consumed but not yet returned add up to \<open>u\<close>. Otherwise no frame is queued for that
  stream and the window is unchanged. For \<open>u\<close> up to \<open>2^24\<close> the threshold is exact: it
  is met precisely when \<open>acc\<close> is at least half of \<open>u\<close>.
\<close>

theorem returnBytes_window_update:
  assumes "32 \<le> w"
    and "0 < winUpperBound c" and "winUpperBound c \<le> maxInitialWindowSize"
    and "int_range w (win c)" and "int_range w (processedWin c)"
    and "0 \<le> delta"
    and "win c \<le> processedWin c - delta"
    and "winUpperBound c - (processedWin c - delta) \<le> maxInitialWindowSize"
    and "stream_id c \<noteq> 0 \<longrightarrow> stream_id cc = 0"
  shows "(stream_id c \<noteq> 0 \<and> snd (snd (returnBytes_own w cc delta)) \<noteq> None \<longrightarrow>
      returnBytes w c cc delta =
        (c, fst (returnBytes_own w cc delta), fst (snd (returnBytes_own w cc delta)),
         snd (snd (returnBytes_own w cc delta))))
    \<and> (stream_id c = 0 \<or> snd (snd (returnBytes_own w cc delta)) = None \<longrightarrow>
       (case returnBytes w c cc delta of (c', cc', fs, err) \<Rightarrow>
          err = None \<and>
          (if processedWin c - delta \<le> windowUpdateThreshold (winUpperBound c) then
             filter (\<lambda>f. Stream f = stream_id c) fs =
               [WindowUpdateFrame (stream_id c) (nat (winUpperBound c - (processedWin c - delta)))]
             \<and> processedWin c' = winUpperBound c
             \<and> win c' = win c + (winUpperBound c - (processedWin c - delta))
             \<and> win c' + (processedWin c - delta - win c) = winUpperBound c
           else
             filter (\<lambda>f. Stream f = stream_id c) fs = []
             \<and> processedWin c' = processedWin c - delta
             \<and> win c' = win c)))
    \<and> (winUpperBound c \<le> 16777216 \<longrightarrow>
        (processedWin c - delta \<le> windowUpdateThreshold (winUpperBound c)
         \<longleftrightarrow> winUpperBound c \<le> 2 * (winUpperBound c - (processedWin c - delta))))"
proof -
  let ?acc = "winUpperBound c - (processedWin c - delta)"
  let ?emit = "processedWin c - delta \<le> windowUpdateThreshold (winUpperBound c)"
  let ?own = "\<lambda>fs. filter (\<lambda>f. Stream f = stream_id c) fs"
  have w: "0 < w" using assms(1) by simp
  obtain c1 fs1 e1 where own: "returnBytes_own w c delta = (c1, fs1, e1)"
    by (cases "returnBytes_own w c delta") auto
  obtain cc1 fs0 e0 where conn: "returnBytes_own w cc delta = (cc1, fs0, e0)"
    by (cases "returnBytes_own w cc delta") auto
  have own_frames: "?own fs1 = fs1"
    using returnBytes_own_frames [OF own] by (simp add: filter_id_conv)
  have body: "e1 = None \<and>
      (if ?emit then
         fs1 = [WindowUpdateFrame (stream_id c) (nat ?acc)]
         \<and> processedWin c1 = winUpperBound c \<and> win c1 = win c + ?acc
         \<and> win c1 + (processedWin c - delta - win c) = winUpperBound c
       else fs1 = [] \<and> processedWin c1 = processedWin c - delta \<and> win c1 = win c)"
  proof (cases ?emit)
    case True
    from returnBytes_own_emit [OF assms(1-8) True] own show ?thesis
      using True by auto
  next
    case False
    then have "windowUpdateThreshold (winUpperBound c) < processedWin c - delta" by simp
    from returnBytes_own_quiet [OF w assms(2,4,5,6,7) this] own show ?thesis
      using False by auto
  qed
  have failed: "stream_id c \<noteq> 0 \<and> snd (snd (returnBytes_own w cc delta)) \<noteq> None \<longrightarrow>
      returnBytes w c cc delta =
        (c, fst (returnBytes_own w cc delta), fst (snd (returnBytes_own w cc delta)),
         snd (snd (returnBytes_own w cc delta)))"
    by (auto simp: returnBytes_def conn)
  have run: "stream_id c = 0 \<or> snd (snd (returnBytes_own w cc delta)) = None \<longrightarrow>
     (case returnBytes w c cc delta of (c', cc', fs, err) \<Rightarrow>
      err = None \<and>
      (if ?emit then
         ?own fs = [WindowUpdateFrame (stream_id c) (nat ?acc)]
         \<and> processedWin c' = winUpperBound c \<and> win c' = win c + ?acc
         \<and> win c' + (processedWin c - delta - win c) = winUpperBound c
       else ?own fs = [] \<and> processedWin c' = processedWin c - delta \<and> win c' = win c))"
  proof (cases "stream_id c = 0")
    case True
    then have "returnBytes w c cc delta = (c1, c1, fs1, e1)"
      by (simp add: returnBytes_def own)
    then show ?thesis using body own_frames True by (simp split: if_splits)
  next
    case False
    show ?thesis
    proof
      assume "stream_id c = 0 \<or> snd (snd (returnBytes_own w cc delta)) = None"
      with False conn have e0: "e0 = None" by simp
      from False assms(9) have cid: "stream_id cc = 0" by simp
      have "\<forall>f\<in>set fs0. Stream f = 0"
        using returnBytes_own_frames [OF conn] cid by simp
      then have none: "?own fs0 = []"
        using False filter_other_stream [of fs0 0 "stream_id c"] by simp
      have "returnBytes w c cc delta = (c1, cc1, fs0 @ fs1, e1)"
        using False by (simp add: returnBytes_def own conn e0)
      then show "case returnBytes w c cc delta of (c', cc', fs, err) \<Rightarrow>
        err = None \<and>
        (if ?emit then
           ?own fs = [WindowUpdateFrame (stream_id c) (nat ?acc)]
           \<and> processedWin c' = winUpperBound c \<and> win c' = win c + ?acc
           \<and> win c' + (processedWin c - delta - win c) = winUpperBound c
         else ?own fs = [] \<and> processedWin c' = processedWin c - delta \<and> win c' = win c)"
        using body own_frames none by (simp split: if_splits)
    qed
  qed
  have exact: "winUpperBound c \<le> 16777216 \<longrightarrow> (?emit \<longleftrightarrow> winUpperBound c \<le> 2 * ?acc)"
  proof
    assume small: "winUpperBound c \<le> 16777216"
    have "windowUpdateThreshold (winUpperBound c) = winUpperBound c div 2"
      using assms(2) small by (rule windowUpdateThreshold_exact)
    then show "?emit \<longleftrightarrow> winUpperBound c \<le> 2 * ?acc" by presburger
  qed
  from failed run exact show ?thesis by blast
qed

theorem returnBytes_window_update_witness:
  "(case returnBytes 64
      \<lparr>stream_id = 1, win = 25535, winLowerBound = 0, winUpperBound = 65535, processedWin = 65535\<rparr>
      \<lparr>stream_id = 0, win = 25535, winLowerBound = 0, winUpperBound = 65535, processedWin = 65535\<rparr>
      35000 of
      (c', cc', fs, err) \<Rightarrow>
        err = None
        \<and> filter (\<lambda>f. Stream f = 1) fs = [WindowUpdateFrame 1 35000]
        \<and> processedWin c' = 65535 \<and> win c' = 60535)
   \<and> (case returnBytes 32
      \<lparr>stream_id = 0, win = 25535, winLowerBound = 0, winUpperBound = 65535, processedWin = 65535\<rparr>
      \<lparr>stream_id = 0, win = 25535, winLowerBound = 0, winUpperBound = 65535, processedWin = 65535\<rparr>
      1000 of
      (c', cc', fs, err) \<Rightarrow>
        err = None
        \<and> filter (\<lambda>f. Stream f = 0) fs = []
        \<and> processedWin c' = 64535 \<and> win c' = 25535)
   \<and> returnBytes 64
      \<lparr>stream_id = 3, win = 65435, winLowerBound = 0, winUpperBound = 65535, processedWin = 65535\<rparr>
      \<lparr>stream_id = 0, win = 65535, winLowerBound = 0, winUpperBound = 65535, processedWin = 65535\<rparr>
      100
    = (\<lparr>stream_id = 3, win = 65435, winLowerBound = 0, winUpperBound = 65535, processedWin = 65535\<rparr>,
       \<lparr>stream_id = 0, win = 65535, winLowerBound = 0, winUpperBound = 65535, processedWin = 65535\<rparr>,
       [], Some (ConnError ReturnTooManyBytes ErrCodeInternal))"
proof -
  let ?c = "\<lparr>stream_id = 1, win = 25535, winLowerBound = 0, winUpperBound = 65535,
              processedWin = 65535\<rparr>"
  let ?cc = "\<lparr>stream_id = 0, win = 25535, winLowerBound = 0, winUpperBound = 65535,
               processedWin = 65535\<rparr>"
  let ?c3 = "\<lparr>stream_id = 3, win = 65435, winLowerBound = 0, winUpperBound = 65535,
               processedWin = 65535\<rparr>"
  let ?full = "\<lparr>stream_id = 0, win = 65535, winLowerBound = 0, winUpperBound = 65535,
                 processedWin = 65535\<rparr>"
  have th: "windowUpdateThreshold 65535 = 32767"
    by (simp add: windowUpdateThreshold_def float32_of_nat_def f32_shift.simps)
  have conn: "returnBytes_own 64 ?cc 35000 =
      (\<lparr>stream_id = 0, win = 60535, winLowerBound = 0, winUpperBound = 65535, processedWin = 65535\<rparr>,
       [WindowUpdateFrame 0 35000], None)"
    by (simp add: returnBytes_own_def windowUpdate_def th updateWindow_def wrap_def
        maxInitialWindowSize_def Let_def)
  have over: "returnBytes_own 64 ?full 100 =
      (?full, [], Some (ConnError ReturnTooManyBytes ErrCodeInternal))"
    by (simp add: returnBytes_own_def wrap_def)
  have a: "case returnBytes 64 ?c ?cc 35000 of (c', cc', fs, err) \<Rightarrow>
      err = None \<and>
      filter (\<lambda>f. Stream f = 1) fs = [WindowUpdateFrame 1 35000]
      \<and> processedWin c' = 65535 \<and> win c' = 60535"
    using returnBytes_window_update [of 64 ?c 35000 ?cc] conn
    by (simp add: th maxInitialWindowSize_def int_range_def)
  have b: "case returnBytes 32 ?cc ?cc 1000 of (c', cc', fs, err) \<Rightarrow>
      err = None \<and>
      filter (\<lambda>f. Stream f = 0) fs = [] \<and> processedWin c' = 64535 \<and> win c' = 25535"
    using returnBytes_window_update [of 32 ?cc 1000 ?cc]
    by (simp add: th maxInitialWindowSize_def int_range_def)
  have c: "returnBytes 64 ?c3 ?full 100 =
      (?c3, ?full, [], Some (ConnError ReturnTooManyBytes ErrCodeInternal))"
    using returnBytes_window_update [of 64 ?c3 100 ?full] over
    by (simp add: maxInitialWindowSize_def int_range_def)
  show ?thesis using a b c by simp
qed

text \<open>
  C6 as stated fails twice. First, with an upper bound of 65535, 40000 bytes consumed
  and 35000 of them returned, a WINDOW_UPDATE of 35000 is queued and the window is
  60535 afterwards: it is not back at the upper bound, because 5000 bytes are still
  with the application. Second, with an upper bound of 33554434 the threshold computed
  in single precision is 16777216, so after returning 16777217 bytes, exactly half of
  the upper bound, no frame is queued.
\<close>

theorem returnBytes_counterexample:
  "returnBytes 64
     \<lparr>stream_id = 0, win = 25535, winLowerBound = 0, winUpperBound = 65535, processedWin = 65535\<rparr>
     \<lparr>stream_id = 0, win = 25535, winLowerBound = 0, winUpperBound = 65535, processedWin = 65535\<rparr>
     35000
   = (\<lparr>stream_id = 0, win = 60535, winLowerBound = 0, winUpperBound = 65535, processedWin = 65535\<rparr>,
      \<lparr>stream_id = 0, win = 60535, winLowerBound = 0, winUpperBound = 65535, processedWin = 65535\<rparr>,
      [WindowUpdateFrame 0 35000], None)
   \<and> returnBytes 64
     \<lparr>stream_id = 0, win = 16777217, winLowerBound = 0, winUpperBound = 33554434,
        processedWin = 33554434\<rparr>
     \<lparr>stream_id = 0, win = 16777217, winLowerBound = 0, winUpperBound = 33554434,
        processedWin = 33554434\<rparr>
     16777217
   = (\<lparr>stream_id = 0, win = 16777217, winLowerBound = 0, winUpperBound = 33554434,
         processedWin = 16777217\<rparr>,
      \<lparr>stream_id = 0, win = 16777217, winLowerBound = 0, winUpperBound = 33554434,
         processedWin = 16777217\<rparr>,
      [], None)"
  by (simp add: returnBytes_def returnBytes_own_def windowUpdate_def windowUpdateThreshold_def
      float32_of_nat_def f32_shift.simps updateWindow_def maxInitialWindowSize_def Let_def wrap_def)

text \<open>
  C7, as the code has it. Let \<open>int\<close> have at least 32 bits and \<open>delta\<close> be a value of the
  type. \<open>incrementInitialWindow(delta)\<close> changes nothing on the connection's controller.
  On a stream's controller it fails with a window size overflow, changing nothing, when
  \<open>delta\<close> is positive and the window plus \<open>delta\<close> exceeds \<open>2^31 - 1\<close>. Otherwise, as
  long as the upper bound is not negative and the three sums of \<open>delta\<close> with the
  window, the processed window and the upper bound are values of the type, it shifts the
  window and the processed window by \<open>delta\<close>, sets the lower bound to \<open>min 0 delta\<close>, and
  sets the upper bound to the old upper bound plus \<open>delta\<close>, clamped into the range from
  65535 to \<open>2^31 - 1\<close>.
\<close>

theorem incrementInitialWindow_effect:
  assumes "32 \<le> w" and "int_range w delta"
  shows "(stream_id c = 0 \<longrightarrow> incrementInitialWindow w c delta = (c, None))
 \<and> (stream_id c \<noteq> 0 \<and> 0 < delta \<and> maxInitialWindowSize < win c + delta \<longrightarrow>
      incrementInitialWindow w c delta = (c, Some (PlainError WindowSizeOverflow)))
 \<and> (stream_id c \<noteq> 0 \<and> (delta \<le> 0 \<or> win c + delta \<le> maxInitialWindowSize)
      \<and> int_range w (win c + delta) \<and> int_range w (processedWin c + delta)
      \<and> int_range w (winUpperBound c + delta)
      \<and> 0 \<le> winUpperBound c \<and> int_range w (winUpperBound c) \<longrightarrow>
      incrementInitialWindow w c delta =
        (c\<lparr>win := win c + delta,
           processedWin := processedWin c + delta,
           winLowerBound := min 0 delta,
           winUpperBound :=
             max defaultInitialWindowSize (min maxInitialWindowSize (winUpperBound c + delta))\<rparr>,
         None))"
proof -
  have w: "0 < w" using assms(1) by simp
  have big: "(2147483648::int) \<le> 2 ^ (w - 1)" using assms(1) by (rule pow_ge_31)
  have guard: "0 < delta \<Longrightarrow> wrap w (maxInitialWindowSize - delta) = maxInitialWindowSize - delta"
    using assms(2) big by (intro wrap_id [OF w]) (simp add: int_range_def maxInitialWindowSize_def)
  have a: "stream_id c = 0 \<longrightarrow> incrementInitialWindow w c delta = (c, None)"
    by (simp add: incrementInitialWindow_def)
  have b: "stream_id c \<noteq> 0 \<and> 0 < delta \<and> maxInitialWindowSize < win c + delta \<longrightarrow>
      incrementInitialWindow w c delta = (c, Some (PlainError WindowSizeOverflow))"
    using guard by (auto simp: incrementInitialWindow_def updateWindow_def)
  have c: "stream_id c \<noteq> 0 \<and> (delta \<le> 0 \<or> win c + delta \<le> maxInitialWindowSize)
      \<and> int_range w (win c + delta) \<and> int_range w (processedWin c + delta)
      \<and> int_range w (winUpperBound c + delta)
      \<and> 0 \<le> winUpperBound c \<and> int_range w (winUpperBound c) \<longrightarrow>
      incrementInitialWindow w c delta =
        (c\<lparr>win := win c + delta,
           processedWin := processedWin c + delta,
           winLowerBound := min 0 delta,
           winUpperBound :=
             max defaultInitialWindowSize (min maxInitialWindowSize (winUpperBound c + delta))\<rparr>,
         None)"
  proof (intro impI, elim conjE)
    assume sid: "stream_id c \<noteq> 0"
      and fits: "delta \<le> 0 \<or> win c + delta \<le> maxInitialWindowSize"
      and r1: "int_range w (win c + delta)" and r2: "int_range w (processedWin c + delta)"
      and r3: "int_range w (winUpperBound c + delta)"
      and u0: "0 \<le> winUpperBound c" and ru: "int_range w (winUpperBound c)"
    define n where "n = max defaultInitialWindowSize (min maxInitialWindowSize (winUpperBound c + delta))"
    have nb: "65535 \<le> n" "n \<le> 2147483647"
      by (simp_all add: n_def defaultInitialWindowSize_def maxInitialWindowSize_def)
    have r4: "int_range w (n - winUpperBound c)"
      using nb u0 ru big by (simp add: int_range_def)
    have r5: "int_range w n" using nb big by (simp add: int_range_def)
    have noov: "\<not> (0 < delta \<and> wrap w (maxInitialWindowSize - delta) < win c)"
      using fits guard by auto
    have uw: "updateWindow w c delta =
        (c\<lparr>win := win c + delta, processedWin := processedWin c + delta,
           winLowerBound := min 0 delta\<rparr>, None)"
      using noov by (simp add: updateWindow_def wrap_id [OF w r1] wrap_id [OF w r2] min_def)
    have clamp: "(let m = winUpperBound c + delta;
         m = (if m < defaultInitialWindowSize then defaultInitialWindowSize else m);
         m = (if m > maxInitialWindowSize then maxInitialWindowSize else m) in m) = n"
      by (simp add: n_def Let_def min_def max_def defaultInitialWindowSize_def
          maxInitialWindowSize_def)
    have ui: "updateInitialWindow w x delta = x\<lparr>winUpperBound := n\<rparr>"
      if "winUpperBound x = winUpperBound c" for x
      using clamp that
      by (simp add: updateInitialWindow_def Let_def wrap_id [OF w r3] wrap_id [OF w r4]
          wrap_id [OF w r5])
    show "incrementInitialWindow w c delta =
        (c\<lparr>win := win c + delta,
           processedWin := processedWin c + delta,
           winLowerBound := min 0 delta,
           winUpperBound :=
             max defaultInitialWindowSize (min maxInitialWindowSize (winUpperBound c + delta))\<rparr>,
         None)"
      using sid by (simp add: incrementInitialWindow_def uw ui n_def)
  qed
  from a b c show ?thesis by blast
qed

theorem incrementInitialWindow_effect_witness:
  "incrementInitialWindow 64
     \<lparr>stream_id = 0, win = 65535, winLowerBound = 0, winUpperBound = 65535, processedWin = 65535\<rparr>
     1000
   = (\<lparr>stream_id = 0, win = 65535, winLowerBound = 0, winUpperBound = 65535, processedWin = 65535\<rparr>,
      None)
   \<and> incrementInitialWindow 64
     \<lparr>stream_id = 3, win = 60000, winLowerBound = 0, winUpperBound = 65535, processedWin = 65535\<rparr>
     34465
   = (\<lparr>stream_id = 3, win = 94465, winLowerBound = 0, winUpperBound = 100000, processedWin = 100000\<rparr>,
      None)
   \<and> incrementInitialWindow 32
     \<lparr>stream_id = 3, win = 94465, winLowerBound = 0, winUpperBound = 100000, processedWin = 100000\<rparr>
     (- 30000)
   = (\<lparr>stream_id = 3, win = 64465, winLowerBound = - 30000, winUpperBound = 70000,
         processedWin = 70000\<rparr>,
      None)
   \<and> incrementInitialWindow 64
     \<lparr>stream_id = 3, win = 2147483000, winLowerBound = 0, winUpperBound = 2147483647,
        processedWin = 2147483647\<rparr>
     1000
   = (\<lparr>stream_id = 3, win = 2147483000, winLowerBound = 0, winUpperBound = 2147483647,
         processedWin = 2147483647\<rparr>,
      Some (PlainError WindowSizeOverflow))"
  using incrementInitialWindow_effect
      [of 64 1000 "\<lparr>stream_id = 0, win = 65535, winLowerBound = 0, winUpperBound = 65535,
            processedWin = 65535\<rparr>"]
    incrementInitialWindow_effect
      [of 64 34465 "\<lparr>stream_id = 3, win = 60000, winLowerBound = 0, winUpperBound = 65535,
            processedWin = 65535\<rparr>"]
    incrementInitialWindow_effect
      [of 32 "- 30000" "\<lparr>stream_id = 3, win = 94465, winLowerBound = 0, winUpperBound = 100000,
            processedWin = 100000\<rparr>"]
    incrementInitialWindow_effect
      [of 64 1000 "\<lparr>stream_id = 3, win = 2147483000, winLowerBound = 0, winUpperBound = 2147483647,
            processedWin = 2147483647\<rparr>"]
  by (simp add: maxInitialWindowSize_def defaultInitialWindowSize_def int_range_def)

text \<open>
  C7 as stated fails: on a stream's controller with upper bound 65535, a change of the
  setting from 65535 to 1024 (\<open>delta = 1024 - 65535\<close>) shifts the window to 1024 and
  sets the lower bound to \<open>-64511\<close>, but the upper bound stays 65535.
\<close>

theorem incrementInitialWindow_counterexample:
  "incrementInitialWindow 64
     \<lparr>stream_id = 1, win = 65535, winLowerBound = 0, winUpperBound = 65535, processedWin = 65535\<rparr>
     (1024 - 65535)
   = (\<lparr>stream_id = 1, win = 1024, winLowerBound = - 64511, winUpperBound = 65535,
         processedWin = 1024\<rparr>,
      None)"
  by (simp add: incrementInitialWindow_def updateWindow_def updateInitialWindow_def Let_def
      maxInitialWindowSize_def defaultInitialWindowSize_def wrap_def)

section \<open>Results on the send flow controller\<close>







section \<open>Results on the settings store\<close>

lemma overwrite_first_found: "snd (overwrite_first s i v) = (i \<in> fst ` set s)"
  by (induction s) (auto split: prod.splits)

lemma overwrite_first_ids: "map fst (fst (overwrite_first s i v)) = map fst s"
  by (induction s) (auto split: prod.splits)

lemma overwrite_first_lookup:
  "i \<in> fst ` set s \<Longrightarrow> lookup_value (fst (overwrite_first s i v)) i = (v, True)"
  by (induction s) (force split: prod.splits)+

lemma overwrite_first_absent: "i \<notin> fst ` set s \<Longrightarrow> fst (overwrite_first s i v) = s"
  by (induction s) (auto split: prod.splits)

lemma lookup_value_append_absent:
  "i \<notin> fst ` set s \<Longrightarrow> lookup_value (s @ [(i, v)]) i = (v, True)"
  by (induction s) auto

lemma SetValue_invalid:
  assumes "(i = SettingEnablePush \<and> 2 \<le> v)
     \<or> (i = SettingInitialWindowSize \<and> 2 ^ 31 - 1 < v)
     \<or> (i = SettingMaxFrameSize \<and> (v < 16384 \<or> 16777215 < v))"
  shows "SetValue s i v = (s, Some (PlainError (InvalidSetting i v)))"
  using assms
  by (auto simp: SetValue_def maxInitialWindowSize_def maxFrameSizeLowerBound_def
      maxFrameSizeUpperBound_def)

lemma SetValue_valid:
  assumes "\<not> ((i = SettingEnablePush \<and> 2 \<le> v)
     \<or> (i = SettingInitialWindowSize \<and> 2 ^ 31 - 1 < v)
     \<or> (i = SettingMaxFrameSize \<and> (v < 16384 \<or> 16777215 < v)))"
  shows "SetValue s i v =
     (if i \<in> fst ` set s then fst (overwrite_first s i v) else s @ [(i, v)], None)"
proof -
  have ok: "(case i of
                 SettingEnablePush \<Rightarrow> v < 2
               | SettingInitialWindowSize \<Rightarrow> int v \<le> maxInitialWindowSize
               | SettingMaxFrameSize \<Rightarrow>
                   maxFrameSizeLowerBound \<le> int v \<and> int v \<le> maxFrameSizeUpperBound
               | _ \<Rightarrow> True)"
    using assms
    by (cases i) (auto simp: maxInitialWindowSize_def maxFrameSizeLowerBound_def
        maxFrameSizeUpperBound_def)
  obtain s1 b where ow: "overwrite_first s i v = (s1, b)" by (cases "overwrite_first s i v") auto
  have b: "b = (i \<in> fst ` set s)" using overwrite_first_found [of s i v] ow by simp
  have s1: "i \<notin> fst ` set s \<Longrightarrow> s1 = s" using overwrite_first_absent [of i s v] ow by simp
  show ?thesis using ok ow b s1 by (auto simp: SetValue_def)
qed

text \<open>
  C8. \<open>SetValue(id, v)\<close> returns an error exactly when \<open>id\<close> is ENABLE_PUSH and
  \<open>v \<ge> 2\<close>, or \<open>id\<close> is INITIAL_WINDOW_SIZE and \<open>v > 2^31 - 1\<close>, or \<open>id\<close> is
  MAX_FRAME_SIZE and \<open>v\<close> is outside 16384 to 16777215. On an error the store is
  unchanged. On success an entry with that id, if there is one, is overwritten and the
  ids of the sequence stay as they were (it does not grow); otherwise the entry is
  appended; and \<open>Value(id)\<close> of the new store is \<open>v\<close>.
\<close>

theorem SetValue_spec:
  "(snd (SetValue s i v) \<noteq> None \<longleftrightarrow>
      (i = SettingEnablePush \<and> 2 \<le> v)
      \<or> (i = SettingInitialWindowSize \<and> 2 ^ 31 - 1 < v)
      \<or> (i = SettingMaxFrameSize \<and> (v < 16384 \<or> 16777215 < v)))
   \<and> (snd (SetValue s i v) \<noteq> None \<longrightarrow> fst (SetValue s i v) = s)
   \<and> (snd (SetValue s i v) = None \<longrightarrow>
        (i \<in> fst ` set s \<longrightarrow> map fst (fst (SetValue s i v)) = map fst s)
        \<and> (i \<notin> fst ` set s \<longrightarrow> fst (SetValue s i v) = s @ [(i, v)])
        \<and> Value (fst (SetValue s i v)) i = v)"
proof (cases "(i = SettingEnablePush \<and> 2 \<le> v)
      \<or> (i = SettingInitialWindowSize \<and> 2 ^ 31 - 1 < v)
      \<or> (i = SettingMaxFrameSize \<and> (v < 16384 \<or> 16777215 < v))")
  case True
  from SetValue_invalid [OF True, of s] True show ?thesis by simp
next
  case False
  from SetValue_valid [OF False, of s] False show ?thesis
    by (auto simp: overwrite_first_ids Value_def overwrite_first_lookup lookup_value_append_absent)
qed

theorem SetValue_spec_witness:
  "snd (SetValue [(SettingMaxFrameSize, 16384), (SettingEnablePush, 1)] SettingMaxFrameSize 100)
     \<noteq> None
   \<and> fst (SetValue [(SettingMaxFrameSize, 16384), (SettingEnablePush, 1)] SettingMaxFrameSize 100)
       = [(SettingMaxFrameSize, 16384), (SettingEnablePush, 1)]
   \<and> snd (SetValue [(SettingMaxFrameSize, 16384), (SettingEnablePush, 1)] SettingEnablePush 0)
       = None
   \<and> map fst (fst (SetValue [(SettingMaxFrameSize, 16384), (SettingEnablePush, 1)]
                          SettingEnablePush 0))
       = [SettingMaxFrameSize, SettingEnablePush]
   \<and> Value (fst (SetValue [(SettingMaxFrameSize, 16384), (SettingEnablePush, 1)]
                          SettingEnablePush 0))
        SettingEnablePush = 0
   \<and> fst (SetValue [(SettingMaxFrameSize, 16384)] SettingInitialWindowSize 1024)
       = [(SettingMaxFrameSize, 16384), (SettingInitialWindowSize, 1024)]"
  using SetValue_spec
      [of "[(SettingMaxFrameSize, 16384), (SettingEnablePush, 1)]" SettingMaxFrameSize 100]
    SetValue_spec [of "[(SettingMaxFrameSize, 16384), (SettingEnablePush, 1)]" SettingEnablePush 0]
    SetValue_spec [of "[(SettingMaxFrameSize, 16384)]" SettingInitialWindowSize 1024]
  by simp

section \<open>Results on header keys\<close>

lemma lower_byte_not_upper: "\<not> isUpper (lower_byte c)"
  by (auto simp: lower_byte_def isUpper_def)

lemma lower_byte_idem: "lower_byte (lower_byte c) = lower_byte c"
  using lower_byte_not_upper [of c] by (simp add: lower_byte_def [of "lower_byte c"])





lemma ToLower_ascii: "isASCII s \<Longrightarrow> ToLower mapLower s = map lower_byte s"
  by (simp add: ToLower_def)


text \<open>
  However a table of names without bytes of 128 and above is filled, a key is mapped to
  its own lower-case form, and that form is a key mapped to itself.
\<close>

lemma fill_commonHeader_step:
  "fill_commonHeader mapLower (names @ [v]) =
     ((fill_commonHeader mapLower names)(v \<mapsto> ToLower mapLower v))
       (ToLower mapLower v \<mapsto> ToLower mapLower v)"
  by (simp add: fill_commonHeader_def)


lemma names_ascii: "list_all isASCII commonHeaderNames"
  by (simp add: commonHeaderNames_def isASCII_def)










lemma e_acute_facts:
  "\<not> isASCII [char_of (201 :: nat), CHR ''A'']"
  "map lower_byte [char_of (201 :: nat), CHR ''A''] = [char_of (201 :: nat), CHR ''a'']"
  "\<not> validHeaderKey [char_of (201 :: nat), CHR ''A'']"
  by code_simp+


section \<open>Results on \<open>addHeader\<close>\<close>

lemma fill_commonHeader_lower:
  assumes "list_all isASCII names" and "v \<in> set names"
  shows "fill_commonHeader mapLower names (map lower_byte v) = Some (map lower_byte v)"
  using assms
proof (induction names rule: rev_induct)
  case Nil
  then show ?case by simp
next
  case (snoc x names)
  have ax: "isASCII x" and an: "list_all isASCII names" using snoc.prems(1) by simp_all
  have step: "fill_commonHeader mapLower (names @ [x]) =
      ((fill_commonHeader mapLower names)(x \<mapsto> map lower_byte x))
        (map lower_byte x \<mapsto> map lower_byte x)"
    by (simp add: fill_commonHeader_step ToLower_ascii [OF ax])
  show ?case
  proof (cases "v = x")
    case True
    then show ?thesis using step by simp
  next
    case False
    with snoc an have old:
      "fill_commonHeader mapLower names (map lower_byte v) = Some (map lower_byte v)" by simp
    show ?thesis using step old by (auto simp: lower_byte_idem)
  qed
qed

lemma lower_TE: "map lower_byte ''TE'' = ''te''"
  by code_simp

lemma TE_common: "''TE'' \<in> set commonHeaderNames"
  by (simp add: commonHeaderNames_def)

lemma canonical_te: "CanonicalHTTP2HeaderKey mapLower ''te'' = ''te''"
proof -
  have "fill_commonHeader mapLower commonHeaderNames ''te'' = Some ''te''"
    using fill_commonHeader_lower [OF names_ascii TE_common, of mapLower]
    unfolding lower_TE .
  then show ?thesis by (simp add: CanonicalHTTP2HeaderKey_def commonHeader_def)
qed

lemma Add_te: "Add mapLower h ''te'' v = Inr (h(''te'' \<mapsto> values_of h ''te'' @ [v]))"
  by (simp add: Add_def canonical_te Let_def)

text \<open>
  C9 does not hold of the code. The test of a \<open>te\<close> header joins its two conditions with
  \<open>&&\<close>, so a \<open>te\<close> header with exactly one value is never rejected: whatever the value
  \<open>v\<close> is, \<open>addHeader\<close> returns no error and stores \<open>v\<close> under \<open>te\<close>.
\<close>

theorem addHeader_te_single_value:
  "addHeader trimFunc mapLower h [(''te'', [v])] = Inr (h(''te'' \<mapsto> values_of h ''te'' @ [v]))"
  by (simp add: canonical_te badHeader_def Add_te Let_def)

theorem addHeader_te_gzip:
  "addHeader (\<lambda>s. s) (\<lambda>s. s) Map.empty [(''te'', [''gzip''])] = Inr [''te'' \<mapsto> [''gzip'']]"
  using addHeader_te_single_value [of "\<lambda>s. s" "\<lambda>s. s" Map.empty "''gzip''"]
  by (simp add: values_of_def)

end
